theory Spec2Isabelle
  imports Main "HOL-Library.Multiset" "HOL-Library.Sublist"
begin

section \<open>Data model (types.ts)\<close>

datatype JobStatus = APPLIED | INTERVIEW | OFFER | REJECTED | DRAFT | ACCEPTED

text \<open>The optional field \<open>origin?: 'application' | 'offer'\<close> is an \<open>Origin option\<close>.\<close>

datatype Origin = Application | Offer

text \<open>
  Interface \<open>Job\<close>. The field \<open>id\<close> is named \<open>job_id\<close> (HOL has a constant \<open>id\<close>);
  \<open>interviewGuide?\<close> and \<open>origin?\<close> are optional in the source.
\<close>

record Job =
  job_id :: string
  company :: string
  role :: string
  location :: string
  salary :: string
  status :: JobStatus
  dateApplied :: string
  description :: string
  coverLetter :: string
  interviewGuide :: "string option"
  email :: string
  origin :: "Origin option"

record ResumeSection =
  section_id :: string
  title :: string
  section_company :: string
  date :: string
  details :: string

record Project =
  project_id :: string
  name :: string
  technologies :: string
  link :: string
  project_description :: string

record Resume =
  fullName :: string
  resume_email :: string
  phone :: string
  summary :: string
  skills :: string
  experience :: "ResumeSection list"
  education :: "ResumeSection list"
  projects :: "Project list"
  avatar :: "string option"

datatype MessageRole = User | Model

record Message =
  message_id :: string
  message_role :: MessageRole
  message_text :: string

datatype ViewState = DASHBOARD | JOBS | OFFERS | RESUME | AVATAR | CLAIRE

section \<open>The application state (App component)\<close>

text \<open>
  The \<open>useState\<close> cells of \<open>App\<close> that the job handlers read and write, together with
  the two output channels the handlers use: \<open>console.error\<close> and \<open>alert\<close>.
\<close>

record App =
  jobs :: "Job list"
  claireMessages :: "Message list"
  unreadClaire :: bool
  currentView :: ViewState
  console :: "string list"
  alerts :: "string list"

text \<open>
  What an awaited call of the remote store settles to. The promise either rejects
  (\<open>Throws\<close>) or resolves to an object \<open>{ data, error }\<close>, each of which may be null.
  For the insert, \<open>data\<close> is the created row, of which the handler reads \<open>data.id\<close>.
\<close>

datatype 'a settled = Throws string | Resolves "'a option" "string option"

text \<open>\<open>Date.now().toString()\<close>: the clock's milliseconds in decimal.\<close>

function toString :: "nat \<Rightarrow> string" where
  "toString n =
     (if n < 10 then [char_of (48 + n)]
      else toString (n div 10) @ [char_of (48 + n mod 10)])"
  by pat_completeness auto
termination
  by (relation "measure (\<lambda>n. n)") auto

declare toString.simps [simp del]

text \<open>
  A handler is a closure created by a render of \<open>App\<close>: where its body names \<open>jobs\<close> or
  \<open>currentView\<close> it reads the value of the render that created it, not the state at the
  time it runs. The two differ for a handler that a component obtained before an
  \<open>await\<close> and calls after it. The functional updates \<open>setJobs(prev => ...)\<close> and
  \<open>setClaireMessages(prev => ...)\<close> work on the state at the time they run.
\<close>

record Render =
  render_jobs :: "Job list"
  render_view :: ViewState

definition render :: "App \<Rightarrow> Render" where
  "render st = \<lparr>render_jobs = jobs st, render_view = currentView st\<rparr>"

section \<open>Job store: add, update, delete (handleAddJob, handleUpdateJob, handleDeleteJob)\<close>

text \<open>
  \<open>handleAddJob\<close> up to its \<open>await\<close>: the optimistic record carries the temporary
  identity and is put at the head of the collection.
\<close>

definition handleAddJob_insert :: "nat \<Rightarrow> Job \<Rightarrow> App \<Rightarrow> App" where
  "handleAddJob_insert now job st =
     (let tempId = toString now;
          optimisticJob = job\<lparr>job_id := tempId\<rparr>
      in st\<lparr>jobs := optimisticJob # jobs st\<rparr>)"

text \<open>The \<open>catch\<close> block of \<open>handleAddJob\<close>: log, then filter the temporary identity out.\<close>

definition handleAddJob_catch :: "string \<Rightarrow> App \<Rightarrow> App" where
  "handleAddJob_catch tempId st =
     st\<lparr>jobs := filter (\<lambda>j. job_id j \<noteq> tempId) (jobs st),
        console := console st @ [''Error adding job'']\<rparr>"

text \<open>
  \<open>handleAddJob\<close> after its \<open>await\<close>. A rejected promise, a resolved \<open>error\<close>
  (\<open>if (error) throw error\<close>) and a null \<open>data\<close> (the read of \<open>data.id\<close> throws) all
  reach the \<open>catch\<close> block; otherwise every record with the temporary identity is
  replaced by \<open>realJob\<close>.
\<close>

definition handleAddJob_settle :: "nat \<Rightarrow> Job \<Rightarrow> string settled \<Rightarrow> App \<Rightarrow> App" where
  "handleAddJob_settle now job res st =
     (let tempId = toString now in
      case res of
        Throws e \<Rightarrow> handleAddJob_catch tempId st
      | Resolves data err \<Rightarrow>
          (case err of
             Some e \<Rightarrow> handleAddJob_catch tempId st
           | None \<Rightarrow>
               (case data of
                  None \<Rightarrow> handleAddJob_catch tempId st
                | Some data_id \<Rightarrow>
                    (let realJob = job\<lparr>job_id := data_id\<rparr>
                     in st\<lparr>jobs := map (\<lambda>j. if job_id j = tempId then realJob else j) (jobs st)\<rparr>))))"

definition handleAddJob :: "nat \<Rightarrow> Job \<Rightarrow> string settled \<Rightarrow> App \<Rightarrow> App" where
  "handleAddJob now job res st = handleAddJob_settle now job res (handleAddJob_insert now job st)"

text \<open>The insert failed: any settlement other than a row without an error.\<close>

definition insertFailed :: "string settled \<Rightarrow> bool" where
  "insertFailed res =
     (case res of
        Throws e \<Rightarrow> True
      | Resolves data err \<Rightarrow> err \<noteq> None \<or> data = None)"

text \<open>
  The two message templates of \<open>handleJobStatusChangeNotification\<close>. The emoji of the
  source are written as the bytes the source file holds.
\<close>

definition acceptedText :: "Job \<Rightarrow> string" where
  "acceptedText job =
     [CHR 0xC3, CHR 0xB0, CHR 0xC5, CHR 0xB8, CHR 0xC5, CHR 0xBD, CHR 0xE2, CHR 0x80, CHR 0xB0]
     @ '' Congratulations! I noticed you accepted an offer for the **'' @ role job
     @ ''** position at **'' @ company job
     @ ''**! That is absolutely fantastic news! Do you need any tips on salary negotiation or preparing for your first day?''"

definition rejectedText :: "Job \<Rightarrow> string" where
  "rejectedText job =
     ''I saw the update about the **'' @ role job @ ''** role at **'' @ company job
     @ ''**. I know that can be disappointing, but don't let it discourage you. Rejection is often just redirection. ''
     @ [CHR 0xC3, CHR 0xB0, CHR 0xC5, CHR 0xB8, CHR 0xC2, CHR 0xA6]
     @ '' Would you like to analyze the job description together to see if there are any skills we can highlight better for next time?''"

definition messageText :: "Job \<Rightarrow> JobStatus \<Rightarrow> string" where
  "messageText job newStatus =
     (if newStatus = ACCEPTED then acceptedText job
      else if newStatus = REJECTED then rejectedText job
      else [])"

text \<open>
  \<open>handleJobStatusChangeNotification\<close>. The message is appended to the messages of
  the running state; \<open>currentView\<close> is the view of the render that created the handler.
\<close>

definition handleJobStatusChangeNotification ::
    "Render \<Rightarrow> nat \<Rightarrow> Job \<Rightarrow> JobStatus \<Rightarrow> App \<Rightarrow> App" where
  "handleJobStatusChangeNotification rend now job newStatus st =
     (if newStatus = ACCEPTED \<or> newStatus = REJECTED then
        (let text = messageText job newStatus in
         if text \<noteq> [] then
           (let newMessage = \<lparr>message_id = toString now, message_role = Model, message_text = text\<rparr>;
                st1 = st\<lparr>claireMessages := claireMessages st @ [newMessage]\<rparr>
            in if render_view rend \<noteq> CLAIRE then st1\<lparr>unreadClaire := True\<rparr> else st1)
         else st)
      else st)"

text \<open>
  \<open>handleUpdateJob\<close> up to its \<open>await\<close>. \<open>setJobs\<close> replaces every record of the
  running state that has the job's identity; \<open>oldJob\<close> is looked up in \<open>jobs\<close> of the
  render that created the handler.
\<close>

definition handleUpdateJob_apply :: "Render \<Rightarrow> nat \<Rightarrow> Job \<Rightarrow> App \<Rightarrow> App" where
  "handleUpdateJob_apply rend now job st =
     (let st1 = st\<lparr>jobs := map (\<lambda>j. if job_id j = job_id job then job else j) (jobs st)\<rparr>;
          oldJob = find (\<lambda>j. job_id j = job_id job) (render_jobs rend)
      in case oldJob of
           None \<Rightarrow> st1
         | Some old \<Rightarrow>
             if status old \<noteq> status job
             then handleJobStatusChangeNotification rend now job (status job) st1
             else st1)"

text \<open>
  \<open>handleUpdateJob\<close> after its \<open>await\<close>: the resolved value is not read; only a
  rejected promise reaches the \<open>catch\<close> block.
\<close>

definition handleUpdateJob_settle :: "unit settled \<Rightarrow> App \<Rightarrow> App" where
  "handleUpdateJob_settle res st =
     (case res of
        Throws e \<Rightarrow> st\<lparr>console := console st @ [''Error updating job'']\<rparr>
      | Resolves data err \<Rightarrow> st)"

definition handleUpdateJob :: "Render \<Rightarrow> nat \<Rightarrow> Job \<Rightarrow> unit settled \<Rightarrow> App \<Rightarrow> App" where
  "handleUpdateJob rend now job res st =
     handleUpdateJob_settle res (handleUpdateJob_apply rend now job st)"

definition handleDeleteJob_apply :: "string \<Rightarrow> App \<Rightarrow> App" where
  "handleDeleteJob_apply i st = st\<lparr>jobs := filter (\<lambda>j. job_id j \<noteq> i) (jobs st)\<rparr>"

definition handleDeleteJob_settle :: "unit settled \<Rightarrow> App \<Rightarrow> App" where
  "handleDeleteJob_settle res st =
     (case res of
        Throws e \<Rightarrow> st\<lparr>console := console st @ [''Error deleting job'']\<rparr>
      | Resolves data err \<Rightarrow> st)"

definition handleDeleteJob :: "string \<Rightarrow> unit settled \<Rightarrow> App \<Rightarrow> App" where
  "handleDeleteJob i res st = handleDeleteJob_settle res (handleDeleteJob_apply i st)"

text \<open>
  The effect \<open>useEffect(..., [currentView])\<close> that clears the unread badge, and the
  sidebar's \<open>onChangeView = setCurrentView\<close>: setting the state to the value it has
  renders nothing, so the effect runs only when the view changed.
\<close>

definition clearUnreadEffect :: "App \<Rightarrow> App" where
  "clearUnreadEffect st = (if currentView st = CLAIRE then st\<lparr>unreadClaire := False\<rparr> else st)"

definition onChangeView :: "ViewState \<Rightarrow> App \<Rightarrow> App" where
  "onChangeView v st =
     (if v = currentView st then st else clearUnreadEffect (st\<lparr>currentView := v\<rparr>))"

section \<open>View partitioner and content type (JobTracker component)\<close>

datatype ViewMode = applications | offers

text \<open>
  The filter predicate of \<open>displayedJobs\<close>:
  \<open>job.origin || (job.status === JobStatus.OFFER ? 'offer' : 'application')\<close>.
\<close>

definition originOrFallback :: "Job \<Rightarrow> Origin" where
  "originOrFallback job =
     (case origin job of
        Some orig \<Rightarrow> orig
      | None \<Rightarrow> (if status job = OFFER then Offer else Application))"

definition displayedJobs :: "ViewMode \<Rightarrow> Job list \<Rightarrow> Job list" where
  "displayedJobs viewMode js =
     (let isOffersMode = (viewMode = offers) in
      filter (\<lambda>job. if isOffersMode then originOrFallback job = Offer
                      else originOrFallback job = Application) js)"

definition isJobOfferType :: "Job \<Rightarrow> bool" where
  "isJobOfferType job = (origin job = Some Offer \<or> status job = OFFER)"

text \<open>
  The content the detail panel shows: \<open>isInterviewGuideContent\<close> is
  \<open>isJobOfferType(selectedJob)\<close>, and \<open>displayContent\<close> is the interview guide or the
  cover letter accordingly (\<open>None\<close> is \<open>undefined\<close>).
\<close>

definition displayContent :: "Job \<Rightarrow> string option" where
  "displayContent job = (if isJobOfferType job then interviewGuide job else Some (coverLetter job))"

section \<open>Generation service (generateCoverLetter, generateInterviewGuide)\<close>

text \<open>
  What \<open>ai.models.generateContent\<close> settles to: the call throws, or it resolves to a
  response whose \<open>text\<close> may be undefined. The prompt the generators build from
  company, role and description goes to the external model only and is left out.
\<close>

datatype generated = GenThrows string | GenResponse "string option"

text \<open>
  Both generators return \<open>Inr\<close> of a text, or would return \<open>Inl\<close> of an exception
  thrown past their own \<open>try\<close>; \<open>response.text || fallback\<close> takes the fallback for an
  undefined or empty text.
\<close>

definition generateCoverLetter :: "generated \<Rightarrow> string + string" where
  "generateCoverLetter g =
     (case g of
        GenThrows e \<Rightarrow> Inr ''Error generating cover letter. Please check your API key.''
      | GenResponse t \<Rightarrow>
          (case t of
             None \<Rightarrow> Inr ''Could not generate cover letter. Please try again.''
           | Some s \<Rightarrow>
               if s = [] then Inr ''Could not generate cover letter. Please try again.''
               else Inr s))"

definition generateInterviewGuide :: "generated \<Rightarrow> string + string" where
  "generateInterviewGuide g =
     (case g of
        GenThrows e \<Rightarrow> Inr ''Error generating interview guide. Please check your API key.''
      | GenResponse t \<Rightarrow>
          (case t of
             None \<Rightarrow> Inr ''Could not generate interview guide. Please try again.''
           | Some s \<Rightarrow>
               if s = [] then Inr ''Could not generate interview guide. Please try again.''
               else Inr s))"

section \<open>Record creation and regeneration (handleCreateJob, handleRegenerate)\<close>

text \<open>
  The form state \<open>newJob: Partial<Job>\<close>. Every \<open>setNewJob\<close> of the component sets or
  keeps \<open>status\<close>, so that field is always present; the text fields may be undefined.
\<close>

record NewJob =
  new_company :: "string option"
  new_role :: "string option"
  new_location :: "string option"
  new_salary :: "string option"
  new_status :: JobStatus
  new_description :: "string option"
  new_email :: "string option"

text \<open>\<open>x || d\<close> on an optional string: undefined and the empty string are falsy.\<close>

definition orElse :: "string option \<Rightarrow> string \<Rightarrow> string" where
  "orElse x d = (case x of None \<Rightarrow> d | Some s \<Rightarrow> if s = [] then d else s)"

definition falsy :: "string option \<Rightarrow> bool" where
  "falsy x = (case x of None \<Rightarrow> True | Some s \<Rightarrow> s = [])"

text \<open>
  The pair \<open>(coverLetter, interviewGuide)\<close> that \<open>handleCreateJob\<close> holds after its
  \<open>try\<close>/\<open>catch\<close> around the generation.
\<close>

definition createdContent :: "bool \<Rightarrow> generated \<Rightarrow> string \<times> string" where
  "createdContent isOffersMode g =
     (if isOffersMode then
        (case generateInterviewGuide g of
           Inr guide \<Rightarrow> ([], guide)
         | Inl err \<Rightarrow> ([], ''Error generating interview guide.''))
      else
        (case generateCoverLetter g of
           Inr letter \<Rightarrow> (letter, [])
         | Inl err \<Rightarrow> (''Error generating cover letter.'', [])))"

text \<open>
  The record \<open>jobToAdd\<close> of \<open>handleCreateJob\<close>. Past the guard of the handler
  \<open>newJob.company\<close> and \<open>newJob.role\<close> are defined and non-empty, and \<open>orElse x []\<close>
  is then the value itself.
\<close>

definition jobToAdd :: "bool \<Rightarrow> NewJob \<Rightarrow> generated \<Rightarrow> string \<Rightarrow> Job" where
  "jobToAdd isOffersMode newJob g dateString =
     (let (letter, guide) = createdContent isOffersMode g in
      \<lparr>job_id = [],
       company = orElse (new_company newJob) [],
       role = orElse (new_role newJob) [],
       location = orElse (new_location newJob) ''Remote'',
       salary = orElse (new_salary newJob) ''Negotiable'',
       status = new_status newJob,
       dateApplied = dateString,
       description = orElse (new_description newJob) [],
       coverLetter = letter,
       interviewGuide = Some guide,
       email = orElse (new_email newJob) [],
       origin = Some (if isOffersMode then Offer else Application)\<rparr>)"

text \<open>
  \<open>handleCreateJob\<close>: nothing happens without a company and a role; otherwise the
  content is generated and the record goes to \<open>onAddJob\<close>, which is \<open>handleAddJob\<close>.
\<close>

definition handleCreateJob ::
    "bool \<Rightarrow> NewJob \<Rightarrow> generated \<Rightarrow> string \<Rightarrow> nat \<Rightarrow> string settled \<Rightarrow> App \<Rightarrow> App" where
  "handleCreateJob isOffersMode newJob g dateString now res st =
     (if falsy (new_company newJob) \<or> falsy (new_role newJob) then st
      else handleAddJob now (jobToAdd isOffersMode newJob g dateString) res st)"

text \<open>
  \<open>handleRegenerate\<close>. The handler holds the \<open>selectedJob\<close> of the component and the
  \<open>onUpdateJob\<close> it was given, which is the \<open>handleUpdateJob\<close> of the render \<open>rend\<close>;
  it awaits the generation and then calls \<open>onUpdateJob\<close>, so the state \<open>st\<close> of the pair
  is the application state at that later time. The second component of the result is
  the new \<open>selectedJob\<close>. The \<open>catch\<close> block logs and alerts, and writes nothing.
\<close>

definition handleRegenerate_catch :: "App \<Rightarrow> App" where
  "handleRegenerate_catch st =
     st\<lparr>console := console st @ [''Regeneration failed''],
        alerts := alerts st @ [''Failed to regenerate content.'']\<rparr>"

definition handleRegenerate ::
    "Render \<Rightarrow> generated \<Rightarrow> nat \<Rightarrow> unit settled \<Rightarrow> App \<times> Job option
       \<Rightarrow> App \<times> Job option" where
  "handleRegenerate rend g now res p =
     (case p of (st, selectedJob) \<Rightarrow>
        (case selectedJob of
           None \<Rightarrow> (st, None)
         | Some sel \<Rightarrow>
             (let isGuide = isJobOfferType sel in
              if isGuide then
                (case generateInterviewGuide g of
                   Inl err \<Rightarrow> (handleRegenerate_catch st, Some sel)
                 | Inr newContent \<Rightarrow>
                     (let updatedJob = sel\<lparr>interviewGuide := Some newContent\<rparr>
                      in (handleUpdateJob rend now updatedJob res st, Some updatedJob)))
              else
                (case generateCoverLetter g of
                   Inl err \<Rightarrow> (handleRegenerate_catch st, Some sel)
                 | Inr newContent \<Rightarrow>
                     (let updatedJob = sel\<lparr>coverLetter := newContent\<rparr>
                      in (handleUpdateJob rend now updatedJob res st, Some updatedJob))))))"

section \<open>Resume autosave (the debounced effect of App)\<close>

text \<open>
  The state the autosave effect works on: whether a session exists, the resume, the
  pending \<open>setTimeout\<close> (the time it is due and the resume its closure holds), and the
  calls of \<open>saveResumeToSupabase\<close> issued so far, oldest first. Times are milliseconds.
\<close>

record Autosave =
  session :: bool
  resume :: Resume
  timer :: "(nat \<times> Resume) option"
  saved :: "Resume list"

text \<open>A pending timer that is due runs its callback: one call of \<open>saveResumeToSupabase\<close>.\<close>

definition fireTimer :: "nat \<Rightarrow> Autosave \<Rightarrow> Autosave" where
  "fireTimer now st =
     (case timer st of
        None \<Rightarrow> st
      | Some (due, r) \<Rightarrow>
          if due \<le> now then st\<lparr>timer := None, saved := saved st @ [r]\<rparr> else st)"

text \<open>
  One run of the effect at time \<open>now\<close>: the cleanup of the previous run
  (\<open>clearTimeout\<close>), the guard, then \<open>setTimeout(..., 2000)\<close>.
\<close>

definition autosaveEffect :: "nat \<Rightarrow> Autosave \<Rightarrow> Autosave" where
  "autosaveEffect now st =
     (let st1 = st\<lparr>timer := None\<rparr> in
      if \<not> session st \<or> fullName (resume st) = [] then st1
      else st1\<lparr>timer := Some (now + 2000, resume st)\<rparr>)"

text \<open>
  A mutation of the resume at time \<open>now\<close>: a timer already due has run, \<open>setResume\<close>
  stores the new document, and the effect runs again because \<open>resume\<close> changed.
\<close>

definition setResume :: "nat \<Rightarrow> Resume \<Rightarrow> Autosave \<Rightarrow> Autosave" where
  "setResume now r st = autosaveEffect now ((fireTimer now st)\<lparr>resume := r\<rparr>)"

text \<open>A sequence of timed mutations, applied in order.\<close>

fun mutations :: "(nat \<times> Resume) list \<Rightarrow> Autosave \<Rightarrow> Autosave" where
  "mutations [] st = st"
| "mutations ((t, r) # ms) st = mutations ms (setResume t r st)"

text \<open>
  A burst after a mutation at time \<open>t\<close>: each mutation comes no earlier than the one
  before it and less than 2000 ms after it.
\<close>

fun withinQuietInterval :: "nat \<Rightarrow> (nat \<times> Resume) list \<Rightarrow> bool" where
  "withinQuietInterval t [] = True"
| "withinQuietInterval t ((t', r) # ms) = (t \<le> t' \<and> t' < t + 2000 \<and> withinQuietInterval t' ms)"

text \<open>Time and resume of the last mutation of a burst that started with \<open>(t, r)\<close>.\<close>

fun lastMutation :: "nat \<times> Resume \<Rightarrow> (nat \<times> Resume) list \<Rightarrow> nat \<times> Resume" where
  "lastMutation m [] = m"
| "lastMutation m (m' # ms) = lastMutation m' ms"

section \<open>Sample values\<close>

text \<open>The initial values of the \<open>useState\<close> cells of \<open>App\<close>.\<close>

definition initialApp :: App where
  "initialApp =
     \<lparr>jobs = [],
      claireMessages =
        [\<lparr>message_id = ''welcome'', message_role = Model,
          message_text = ''Hi there! I'm Claire, your personal job search assistant. How can I help you land your dream job today?''\<rparr>],
      unreadClaire = False,
      currentView = DASHBOARD,
      console = [],
      alerts = []\<rparr>"

text \<open>A stored application, and a record as \<open>handleCreateJob\<close> submits it (empty identity).\<close>

definition sampleJob :: Job where
  "sampleJob =
     \<lparr>job_id = ''5'', company = ''Acme'', role = ''Engineer'', location = ''Remote'',
      salary = ''Negotiable'', status = APPLIED, dateApplied = ''2026-01-15'',
      description = [], coverLetter = ''Dear Hiring Manager,'', interviewGuide = Some [],
      email = [], origin = Some Application\<rparr>"

definition submittedJob :: Job where
  "submittedJob =
     \<lparr>job_id = [], company = ''Globex'', role = ''Analyst'', location = ''Remote'',
      salary = ''Negotiable'', status = APPLIED, dateApplied = ''2026-02-01'',
      description = [], coverLetter = ''Dear Hiring Manager,'', interviewGuide = Some [],
      email = [], origin = Some Application\<rparr>"

text \<open>
  The stored application after its status was set to \<open>Offer\<close> in the detail panel, and
  a record from before the \<open>origin\<close> field existed.
\<close>

definition offerStatusApplication :: Job where
  "offerStatusApplication = sampleJob\<lparr>status := OFFER\<rparr>"

definition legacyOffer :: Job where
  "legacyOffer = sampleJob\<lparr>job_id := ''6'', status := OFFER, origin := None\<rparr>"

text \<open>A filled form of the applications view.\<close>

definition sampleForm :: NewJob where
  "sampleForm =
     \<lparr>new_company = Some ''Globex'', new_role = Some ''Analyst'', new_location = None,
      new_salary = None, new_status = APPLIED, new_description = Some [], new_email = None\<rparr>"

text \<open>The initial resume of \<open>App\<close>, and the autosave state of a signed-in user at start.\<close>

definition blankResume :: Resume where
  "blankResume =
     \<lparr>fullName = [], resume_email = [], phone = [], summary = [], skills = [],
      experience = [], education = [], projects = [], avatar = None\<rparr>"

definition initialAutosave :: Autosave where
  "initialAutosave = \<lparr>session = True, resume = blankResume, timer = None, saved = []\<rparr>"

text \<open>
  A status change while a regeneration is awaited. The collection holds one
  application with status Rejected, and the jobs view is active (\<open>rejectedApp\<close>). The
  user clicks Regenerate: \<open>handleRegenerate\<close> holds the \<open>selectedJob\<close> and the
  \<open>onUpdateJob\<close> of that render and awaits the generation. Meanwhile the user sets the
  status to Interview in the status select (\<open>afterStatusSelect\<close>). Then the generation
  resolves and \<open>handleRegenerate\<close> goes on (\<open>staleRegenerate\<close>).
\<close>

definition rejectedApp :: App where
  "rejectedApp = initialApp\<lparr>jobs := [sampleJob\<lparr>status := REJECTED\<rparr>], currentView := JOBS\<rparr>"

definition afterStatusSelect :: App where
  "afterStatusSelect =
     handleUpdateJob (render rejectedApp) 7 (sampleJob\<lparr>status := INTERVIEW\<rparr>)
       (Resolves None None) rejectedApp"

definition staleRegenerate :: "App \<times> Job option" where
  "staleRegenerate =
     handleRegenerate (render rejectedApp) (GenResponse (Some ''Dear Hiring Team,'')) 8
       (Resolves None None) (afterStatusSelect, Some (sampleJob\<lparr>status := REJECTED\<rparr>))"

text \<open>
  A regeneration that ends while the chat view is active. The collection holds one
  application with status Accepted, and the jobs view is active (\<open>acceptedApp\<close>). The
  user sets the status to Interview; \<open>handleStatusChange\<close> awaits \<open>onUpdateJob\<close>, which
  has replaced the record and awaits the remote update (\<open>afterDowngrade\<close>), and has not
  yet reached its \<open>setSelectedJob\<close>, so \<open>selectedJob\<close> still has status Accepted. The
  user clicks Regenerate in this render, opens the chat view (\<open>chatOpened\<close>), and then
  the generation resolves (\<open>lateRegenerate\<close>).
\<close>

definition acceptedApp :: App where
  "acceptedApp = initialApp\<lparr>jobs := [sampleJob\<lparr>status := ACCEPTED\<rparr>], currentView := JOBS\<rparr>"

definition afterDowngrade :: App where
  "afterDowngrade =
     handleUpdateJob_apply (render acceptedApp) 7 (sampleJob\<lparr>status := INTERVIEW\<rparr>) acceptedApp"

definition chatOpened :: App where
  "chatOpened = onChangeView CLAIRE afterDowngrade"

definition lateRegenerate :: "App \<times> Job option" where
  "lateRegenerate =
     handleRegenerate (render afterDowngrade) (GenResponse (Some ''Dear Hiring Team,'')) 9
       (Resolves None None) (chatOpened, Some (sampleJob\<lparr>status := ACCEPTED\<rparr>))"

section \<open>Job store: optimistic create\<close>

lemma handleAddJob_failed:
  "insertFailed res \<Longrightarrow>
   handleAddJob now job res st =
     st\<lparr>jobs := filter (\<lambda>j. job_id j \<noteq> toString now) (jobs st),
        console := console st @ [''Error adding job'']\<rparr>"
  by (auto simp: insertFailed_def handleAddJob_def handleAddJob_settle_def handleAddJob_insert_def
      handleAddJob_catch_def Let_def split: settled.splits option.splits)

lemma handleAddJob_succeeded:
  "handleAddJob now job (Resolves (Some X) None) st =
     st\<lparr>jobs := job\<lparr>job_id := X\<rparr> #
                 map (\<lambda>j. if job_id j = toString now then job\<lparr>job_id := X\<rparr> else j) (jobs st)\<rparr>"
  by (simp add: handleAddJob_def handleAddJob_settle_def handleAddJob_insert_def Let_def)

lemma filter_fresh: "\<forall>j \<in> set js. job_id j \<noteq> i \<Longrightarrow> filter (\<lambda>j. job_id j \<noteq> i) js = js"
  by (induction js) auto

lemma map_fresh:
  "\<forall>j \<in> set js. job_id j \<noteq> i \<Longrightarrow> map (\<lambda>j. if job_id j = i then r else j) js = js"
  by (induction js) auto

text \<open>
  Where no stored record carries the temporary identity, a failed add restores the
  collection and logs the failure, and a confirmed add puts the submitted job with
  the returned identity at the head of the collection as it was.
\<close>

lemma failed_add_with_unused_identity:
  assumes "insertFailed res" and "\<forall>j \<in> set (jobs st). job_id j \<noteq> toString now"
  shows "jobs (handleAddJob now job res st) = jobs st
       \<and> console (handleAddJob now job res st) = console st @ [''Error adding job'']"
  using assms by (simp add: handleAddJob_failed filter_fresh)

lemma confirmed_add_with_unused_identity:
  assumes "\<forall>j \<in> set (jobs st). job_id j \<noteq> toString now"
  shows "jobs (handleAddJob now job (Resolves (Some X) None) st) = job\<lparr>job_id := X\<rparr> # jobs st"
  using assms by (simp add: handleAddJob_succeeded map_fresh)

text \<open>
  C1. Two adds issued in the same millisecond get the same temporary identity. While
  the first is pending, the collection holds its optimistic record; when the second
  fails, the rollback removes every record with that identity, so the collection after
  the failed add is empty and not the collection from before it: the pending record
  of the first add is lost.
\<close>

theorem failed_add_removes_pending_record:
  "jobs (handleAddJob_insert 1767225600000 sampleJob initialApp)
     = [sampleJob\<lparr>job_id := toString 1767225600000\<rparr>]
   \<and> jobs (handleAddJob 1767225600000 submittedJob (Throws ''offline'')
            (handleAddJob_insert 1767225600000 sampleJob initialApp)) = []"
  by (simp add: handleAddJob_failed insertFailed_def handleAddJob_insert_def initialApp_def)

text \<open>
  C2. Two adds issued in the same millisecond get the same temporary identity. While
  the first is pending, the collection holds its optimistic record; when the second is
  confirmed with identity \<open>''row-9''\<close>, the replacement overwrites every record with
  the temporary identity, so the collection holds two records of identity \<open>''row-9''\<close>,
  both with the fields of the second job, and the record of the first add is lost.
\<close>

theorem confirmed_add_overwrites_pending_record:
  "jobs (handleAddJob_insert 1767225600000 sampleJob initialApp)
     = [sampleJob\<lparr>job_id := toString 1767225600000\<rparr>]
   \<and> jobs (handleAddJob 1767225600000 submittedJob (Resolves (Some ''row-9'') None)
            (handleAddJob_insert 1767225600000 sampleJob initialApp))
     = [submittedJob\<lparr>job_id := ''row-9''\<rparr>, submittedJob\<lparr>job_id := ''row-9''\<rparr>]"
  by (simp add: handleAddJob_succeeded handleAddJob_insert_def initialApp_def)

section \<open>Job store: update, delete and the transition notifier\<close>

lemma sublist_third: "sublist x (a @ b @ x @ c)"
  by (metis sublist_appendI append_assoc)

lemma sublist_fifth: "sublist y (a @ b @ x @ c @ y @ d)"
  by (metis sublist_appendI append_assoc)

lemma sublist_fourth: "sublist y (a @ x @ b @ y @ c)"
  by (metis sublist_appendI append_assoc)

lemma acceptedText_names:
  "sublist (role job) (acceptedText job) \<and> sublist (company job) (acceptedText job)"
  unfolding acceptedText_def by (intro conjI sublist_third sublist_fifth)

lemma rejectedText_names:
  "sublist (role job) (rejectedText job) \<and> sublist (company job) (rejectedText job)"
  unfolding rejectedText_def by (intro conjI sublist_appendI sublist_fourth)

lemma acceptedText_nonempty: "acceptedText job \<noteq> []"
  by (simp add: acceptedText_def)

lemma rejectedText_nonempty: "rejectedText job \<noteq> []"
  by (simp add: rejectedText_def)

text \<open>
  The notifier appends one message for Accepted and Rejected, and raises the flag when
  the view of the handler's render is not the chat view, whatever the active view is.
\<close>

lemma notification_message:
  "handleJobStatusChangeNotification rend now job newStatus st =
     (if newStatus = ACCEPTED \<or> newStatus = REJECTED
      then st\<lparr>claireMessages := claireMessages st @
                 [\<lparr>message_id = toString now, message_role = Model,
                   message_text = messageText job newStatus\<rparr>],
               unreadClaire := (render_view rend \<noteq> CLAIRE \<or> unreadClaire st)\<rparr>
      else st)"
  by (auto simp: handleJobStatusChangeNotification_def messageText_def Let_def
      acceptedText_nonempty rejectedText_nonempty)

text \<open>
  An update appends a message according to the status the record has in the handler's
  render, not the status stored when the update runs.
\<close>

lemma update_apply_messages:
  "claireMessages (handleUpdateJob_apply rend now job st) =
     claireMessages st @
       (case find (\<lambda>j. job_id j = job_id job) (render_jobs rend) of
          None \<Rightarrow> []
        | Some old \<Rightarrow>
            if status old \<noteq> status job \<and> (status job = ACCEPTED \<or> status job = REJECTED)
            then [\<lparr>message_id = toString now, message_role = Model,
                   message_text = messageText job (status job)\<rparr>]
            else [])"
  by (simp add: handleUpdateJob_apply_def notification_message Let_def split: option.splits)

lemma update_apply_jobs:
  "jobs (handleUpdateJob_apply rend now job st)
     = map (\<lambda>j. if job_id j = job_id job then job else j) (jobs st)"
  by (simp add: handleUpdateJob_apply_def handleJobStatusChangeNotification_def Let_def
      split: option.splits)

lemma update_apply_console:
  "console (handleUpdateJob_apply rend now job st) = console st
   \<and> alerts (handleUpdateJob_apply rend now job st) = alerts st
   \<and> currentView (handleUpdateJob_apply rend now job st) = currentView st"
  by (simp add: handleUpdateJob_apply_def handleJobStatusChangeNotification_def Let_def
      split: option.splits)

lemma update_settle_frame:
  "claireMessages (handleUpdateJob_settle res st) = claireMessages st
   \<and> jobs (handleUpdateJob_settle res st) = jobs st
   \<and> unreadClaire (handleUpdateJob_settle res st) = unreadClaire st
   \<and> currentView (handleUpdateJob_settle res st) = currentView st
   \<and> alerts (handleUpdateJob_settle res st) = alerts st"
  by (simp add: handleUpdateJob_settle_def split: settled.splits)

text \<open>
  For a handler that runs in the state of the render that created it, as the one the
  status select calls does: the update appends exactly one message of role \<open>model\<close>,
  whose text contains the role and the company, when the stored status differs from
  the new one and the new one is Accepted or Rejected, and none otherwise; the
  settlement of the remote call adds none; and the flag is raised exactly when a
  message is appended and the active view is not the chat view.
\<close>

lemma update_by_current_handler:
  assumes "find (\<lambda>j. job_id j = job_id job) (jobs st) = Some old"
  shows "claireMessages (handleUpdateJob_apply (render st) now job st) =
           claireMessages st @
             (if status old \<noteq> status job \<and> (status job = ACCEPTED \<or> status job = REJECTED)
              then [\<lparr>message_id = toString now, message_role = Model,
                     message_text = messageText job (status job)\<rparr>]
              else [])
       \<and> (status job = ACCEPTED \<or> status job = REJECTED \<longrightarrow>
            sublist (role job) (messageText job (status job))
          \<and> sublist (company job) (messageText job (status job)))
       \<and> claireMessages (handleUpdateJob (render st) now job res st) =
           claireMessages (handleUpdateJob_apply (render st) now job st)
       \<and> unreadClaire (handleUpdateJob (render st) now job res st) =
           (unreadClaire st
            \<or> (status old \<noteq> status job \<and> (status job = ACCEPTED \<or> status job = REJECTED)
               \<and> currentView st \<noteq> CLAIRE))"
  using assms
  by (auto simp: update_apply_messages handleUpdateJob_def update_settle_frame messageText_def
      acceptedText_names rejectedText_names render_def handleUpdateJob_apply_def
      notification_message Let_def)

text \<open>Switching from another view to the chat view clears the flag.\<close>

lemma change_to_chat_clears_flag:
  "currentView st \<noteq> CLAIRE \<Longrightarrow>
   \<not> unreadClaire (onChangeView CLAIRE st) \<and> currentView (onChangeView CLAIRE st) = CLAIRE"
  by (simp add: onChangeView_def clearUnreadEffect_def)

text \<open>
  C3. A status change while a regeneration is awaited: the stored status is Interview
  when the awaited regeneration goes on and updates the record with status Rejected,
  so the new status differs from the stored one and is Rejected; the handler compares
  with the status of its own render, which is Rejected, and appends no message.
\<close>

theorem stale_update_appends_no_message:
  "map status (jobs afterStatusSelect) = [INTERVIEW]
   \<and> map status (jobs (fst staleRegenerate)) = [REJECTED]
   \<and> claireMessages (fst staleRegenerate) = claireMessages afterStatusSelect
   \<and> claireMessages afterStatusSelect = claireMessages initialApp"
  by (simp add: staleRegenerate_def afterStatusSelect_def rejectedApp_def render_def
      handleRegenerate_def handleUpdateJob_def update_settle_frame update_apply_jobs
      update_apply_messages isJobOfferType_def generateCoverLetter_def sampleJob_def Let_def)

text \<open>
  A thrown failure of the remote update or delete leaves the optimistic change in
  place and is logged.
\<close>

lemma update_thrown_failure_retained_and_logged:
  "jobs (handleUpdateJob rend now job (Throws e) st)
     = map (\<lambda>j. if job_id j = job_id job then job else j) (jobs st)
   \<and> console (handleUpdateJob rend now job (Throws e) st) = console st @ [''Error updating job'']"
  by (simp add: handleUpdateJob_def handleUpdateJob_settle_def update_apply_jobs
      update_apply_console)

lemma delete_thrown_failure_retained_and_logged:
  "jobs (handleDeleteJob i (Throws e) st) = filter (\<lambda>j. job_id j \<noteq> i) (jobs st)
   \<and> console (handleDeleteJob i (Throws e) st) = console st @ [''Error deleting job'']"
  by (simp add: handleDeleteJob_def handleDeleteJob_settle_def handleDeleteJob_apply_def)

text \<open>
  C6. When the remote update or delete fails by resolving to an object with an
  \<open>error\<close>, which is the form of failure \<open>handleAddJob\<close> tests for, the optimistic change
  is retained and nothing is reported: the console and the alerts are as before.
\<close>

theorem update_delete_resolved_error_not_reported:
  "jobs (handleUpdateJob rend now job (Resolves d (Some e)) st)
     = map (\<lambda>j. if job_id j = job_id job then job else j) (jobs st)
   \<and> console (handleUpdateJob rend now job (Resolves d (Some e)) st) = console st
   \<and> alerts (handleUpdateJob rend now job (Resolves d (Some e)) st) = alerts st
   \<and> jobs (handleDeleteJob i (Resolves d (Some e)) st) = filter (\<lambda>j. job_id j \<noteq> i) (jobs st)
   \<and> console (handleDeleteJob i (Resolves d (Some e)) st) = console st
   \<and> alerts (handleDeleteJob i (Resolves d (Some e)) st) = alerts st"
  by (simp add: handleUpdateJob_def handleUpdateJob_settle_def update_apply_jobs
      update_apply_console handleDeleteJob_def handleDeleteJob_settle_def
      handleDeleteJob_apply_def)

text \<open>
  C8. A regeneration that ends while the chat view is active: when the chat view was
  opened the flag was clear; the awaited regeneration then updates the record from
  Interview to Accepted with the handler of a render of the jobs view, and the flag is
  raised while the chat view is the active view.
\<close>

theorem stale_update_raises_flag_in_chat_view:
  "currentView chatOpened = CLAIRE
   \<and> \<not> unreadClaire chatOpened
   \<and> map status (jobs chatOpened) = [INTERVIEW]
   \<and> map status (jobs (fst lateRegenerate)) = [ACCEPTED]
   \<and> currentView (fst lateRegenerate) = CLAIRE
   \<and> unreadClaire (fst lateRegenerate)"
  by (simp add: lateRegenerate_def chatOpened_def afterDowngrade_def acceptedApp_def render_def
      handleRegenerate_def handleUpdateJob_def handleUpdateJob_settle_def
      handleUpdateJob_apply_def notification_message onChangeView_def clearUnreadEffect_def
      isJobOfferType_def generateCoverLetter_def sampleJob_def initialApp_def Let_def)

section \<open>View partitioner and content type\<close>

lemma set_displayedJobs:
  "set (displayedJobs viewMode js) =
     {job \<in> set js. originOrFallback job = (if viewMode = offers then Offer else Application)}"
  by (auto simp: displayedJobs_def Let_def)

lemma displayedJobs_complement:
  "displayedJobs applications js = filter (\<lambda>job. \<not> originOrFallback job = Offer) js"
  "displayedJobs offers js = filter (\<lambda>job. originOrFallback job = Offer) js"
proof -
  have "originOrFallback job = Application \<longleftrightarrow> \<not> originOrFallback job = Offer" for job
    by (cases "originOrFallback job") auto
  then show "displayedJobs applications js = filter (\<lambda>job. \<not> originOrFallback job = Offer) js"
    by (simp add: displayedJobs_def)
  show "displayedJobs offers js = filter (\<lambda>job. originOrFallback job = Offer) js"
    by (simp add: displayedJobs_def)
qed

lemma mset_filter_partition: "mset (filter (\<lambda>x. \<not> P x) xs) + mset (filter P xs) = mset xs"
  by (induction xs) auto

text \<open>
  C4, as amended. The list partitioner places a record by \<open>origin\<close> alone when the
  field is present, and by \<open>status == Offer\<close> only when it is absent. The choice between
  interview guide and cover letter (\<open>isJobOfferType\<close>) takes a record for an offer when
  the partitioner does or when its status is Offer; the two agree on every record
  except one with origin \<open>application\<close> and status Offer.
\<close>

theorem classification_by_origin:
  "(job \<in> set (displayedJobs offers js) \<longleftrightarrow> job \<in> set js \<and> originOrFallback job = Offer)
   \<and> (job \<in> set (displayedJobs applications js)
        \<longleftrightarrow> job \<in> set js \<and> originOrFallback job = Application)
   \<and> (\<forall>orig. origin job = Some orig \<longrightarrow> originOrFallback job = orig)
   \<and> (origin job = None \<longrightarrow> (originOrFallback job = Offer \<longleftrightarrow> status job = OFFER))
   \<and> (isJobOfferType job \<longleftrightarrow> originOrFallback job = Offer \<or> status job = OFFER)
   \<and> ((isJobOfferType job \<longleftrightarrow> originOrFallback job = Offer)
        \<longleftrightarrow> \<not> (origin job = Some Application \<and> status job = OFFER))"
  by (cases "origin job"; cases "the (origin job)")
     (auto simp: set_displayedJobs originOrFallback_def isJobOfferType_def)

theorem classification_by_origin_witness:
  "legacyOffer \<in> set (displayedJobs offers [sampleJob, legacyOffer])
   \<and> sampleJob \<in> set (displayedJobs applications [sampleJob, legacyOffer])
   \<and> isJobOfferType legacyOffer \<and> \<not> isJobOfferType sampleJob"
proof -
  have a: "origin legacyOffer = None" "status legacyOffer = OFFER"
    by (simp_all add: legacyOffer_def)
  have b: "origin sampleJob = Some Application" "status sampleJob = APPLIED"
    by (simp_all add: sampleJob_def)
  show ?thesis
    using classification_by_origin [of legacyOffer "[sampleJob, legacyOffer]"]
          classification_by_origin [of sampleJob "[sampleJob, legacyOffer]"]
    by (simp add: a b)
qed

text \<open>
  C4 as stated fails for an application whose status is Offer: its origin is present
  and is \<open>application\<close>, the partitioner lists it under applications and not under
  offers, and \<open>isJobOfferType\<close> takes it for an offer.
\<close>

theorem regeneration_classifies_by_status_counterexample:
  "origin offerStatusApplication = Some Application
   \<and> status offerStatusApplication = OFFER
   \<and> displayedJobs applications [offerStatusApplication] = [offerStatusApplication]
   \<and> displayedJobs offers [offerStatusApplication] = []
   \<and> isJobOfferType offerStatusApplication"
  by (simp add: offerStatusApplication_def sampleJob_def displayedJobs_def originOrFallback_def
      isJobOfferType_def)

text \<open>
  C5. The applications view and the offers view of a collection partition it: as
  multisets of records, and so of identities, the two views add up to the collection;
  no record is in both; and each view is a subsequence of the collection, so it keeps
  the relative order. When the identities of the collection are distinct, no identity
  is in both views either.
\<close>

theorem displayedJobs_partition:
  "mset (displayedJobs applications js) + mset (displayedJobs offers js) = mset js
   \<and> mset (map job_id (displayedJobs applications js))
       + mset (map job_id (displayedJobs offers js)) = mset (map job_id js)
   \<and> set (displayedJobs applications js) \<inter> set (displayedJobs offers js) = {}
   \<and> subseq (displayedJobs applications js) js
   \<and> subseq (displayedJobs offers js) js
   \<and> (distinct (map job_id js) \<longrightarrow>
        set (map job_id (displayedJobs applications js))
          \<inter> set (map job_id (displayedJobs offers js)) = {})"
proof -
  let ?A = "displayedJobs applications js" and ?O = "displayedJobs offers js"
  have m: "mset ?A + mset ?O = mset js"
    unfolding displayedJobs_complement by (rule mset_filter_partition)
  have "mset (map job_id ?A) + mset (map job_id ?O) = image_mset job_id (mset ?A + mset ?O)"
    by simp
  then have i: "mset (map job_id ?A) + mset (map job_id ?O) = mset (map job_id js)"
    by (simp only: m mset_map)
  have d: "set ?A \<inter> set ?O = {}"
    unfolding displayedJobs_complement by auto
  have s: "subseq ?A js" "subseq ?O js"
    unfolding displayedJobs_complement by simp_all
  have k: "set (map job_id ?A) \<inter> set (map job_id ?O) = {}" if "distinct (map job_id js)"
  proof -
    have "inj_on job_id (set js)" using that by (simp add: distinct_map)
    moreover have "set ?A \<subseteq> set js" "set ?O \<subseteq> set js"
      unfolding displayedJobs_complement by auto
    ultimately have "job_id ` set ?A \<inter> job_id ` set ?O = job_id ` (set ?A \<inter> set ?O)"
      by (metis inj_on_image_Int)
    with d show ?thesis by simp
  qed
  from m i d s k show ?thesis by blast
qed

theorem displayedJobs_partition_witness:
  "displayedJobs applications [sampleJob, legacyOffer] = [sampleJob]
   \<and> displayedJobs offers [sampleJob, legacyOffer] = [legacyOffer]
   \<and> set (map job_id (displayedJobs applications [sampleJob, legacyOffer]))
       \<inter> set (map job_id (displayedJobs offers [sampleJob, legacyOffer])) = {}"
proof -
  have d: "distinct (map job_id [sampleJob, legacyOffer])"
    by (simp add: sampleJob_def legacyOffer_def)
  have e: "displayedJobs applications [sampleJob, legacyOffer] = [sampleJob]"
          "displayedJobs offers [sampleJob, legacyOffer] = [legacyOffer]"
    by (simp_all add: displayedJobs_def originOrFallback_def sampleJob_def legacyOffer_def)
  show ?thesis
    using displayedJobs_partition [of "[sampleJob, legacyOffer]"] d e by simp
qed

section \<open>Generation fallback\<close>

text \<open>Neither generator throws, and neither returns an empty text.\<close>

lemma generators_never_throw:
  "(\<exists>t. generateCoverLetter g = Inr t \<and> t \<noteq> [])
   \<and> (\<exists>t. generateInterviewGuide g = Inr t \<and> t \<noteq> [])"
  by (simp add: generateCoverLetter_def generateInterviewGuide_def
      split: generated.splits option.splits)

text \<open>
  C7, as amended. When the external generation call throws, each generator returns
  its own fixed placeholder instead of throwing. At creation the record submitted to
  the store has origin \<open>offer\<close> and the guide placeholder as interview guide in offers
  mode, and origin \<open>application\<close> and the letter placeholder as cover letter otherwise.
  At regeneration the field chosen by \<open>isJobOfferType\<close>, which is the field the detail
  panel displays, is set to the placeholder of its kind and the record goes through
  \<open>handleUpdateJob\<close>; the \<open>catch\<close> block of the handler is not reached.
\<close>

theorem generation_failure_placeholder:
  "generateCoverLetter (GenThrows e)
     = Inr ''Error generating cover letter. Please check your API key.''
   \<and> generateInterviewGuide (GenThrows e)
     = Inr ''Error generating interview guide. Please check your API key.''
   \<and> origin (jobToAdd isOffersMode newJob (GenThrows e) dateString)
       = Some (if isOffersMode then Offer else Application)
   \<and> (isOffersMode \<longrightarrow>
        interviewGuide (jobToAdd isOffersMode newJob (GenThrows e) dateString)
          = Some ''Error generating interview guide. Please check your API key.'')
   \<and> (\<not> isOffersMode \<longrightarrow>
        coverLetter (jobToAdd isOffersMode newJob (GenThrows e) dateString)
          = ''Error generating cover letter. Please check your API key.'')
   \<and> (\<not> falsy (new_company newJob) \<and> \<not> falsy (new_role newJob) \<longrightarrow>
        handleCreateJob isOffersMode newJob (GenThrows e) dateString now ins st
          = handleAddJob now (jobToAdd isOffersMode newJob (GenThrows e) dateString) ins st)
   \<and> (isJobOfferType sel \<longrightarrow>
        handleRegenerate rend (GenThrows e) now res (st, Some sel)
          = (handleUpdateJob rend now
               (sel\<lparr>interviewGuide :=
                      Some ''Error generating interview guide. Please check your API key.''\<rparr>)
               res st,
             Some (sel\<lparr>interviewGuide :=
                      Some ''Error generating interview guide. Please check your API key.''\<rparr>)))
   \<and> (\<not> isJobOfferType sel \<longrightarrow>
        handleRegenerate rend (GenThrows e) now res (st, Some sel)
          = (handleUpdateJob rend now
               (sel\<lparr>coverLetter := ''Error generating cover letter. Please check your API key.''\<rparr>)
               res st,
             Some (sel\<lparr>coverLetter :=
                      ''Error generating cover letter. Please check your API key.''\<rparr>)))
   \<and> (\<forall>sel'. snd (handleRegenerate rend (GenThrows e) now res (st, Some sel)) = Some sel' \<longrightarrow>
        displayContent sel'
          = Some (if isJobOfferType sel
                  then ''Error generating interview guide. Please check your API key.''
                  else ''Error generating cover letter. Please check your API key.''))
   \<and> alerts (fst (handleRegenerate rend (GenThrows e) now res (st, Some sel))) = alerts st"
  by (auto simp: generateCoverLetter_def generateInterviewGuide_def jobToAdd_def
      createdContent_def handleCreateJob_def handleRegenerate_def Let_def displayContent_def
      isJobOfferType_def handleUpdateJob_def update_settle_frame update_apply_console)

theorem generation_failure_placeholder_witness:
  "coverLetter (hd (jobs (handleCreateJob False sampleForm (GenThrows ''quota'') ''2026-02-01'' 7
       (Resolves (Some ''row-9'') None) initialApp)))
     = ''Error generating cover letter. Please check your API key.''
   \<and> map_option coverLetter
        (snd (handleRegenerate (render (initialApp\<lparr>jobs := [sampleJob]\<rparr>))
               (GenThrows ''quota'') 7 (Resolves None None)
               (initialApp\<lparr>jobs := [sampleJob]\<rparr>, Some sampleJob)))
       = Some ''Error generating cover letter. Please check your API key.''"
proof -
  have n: "\<not> falsy (new_company sampleForm) \<and> \<not> falsy (new_role sampleForm)"
    by (simp add: sampleForm_def falsy_def)
  have o: "\<not> isJobOfferType sampleJob"
    by (simp add: isJobOfferType_def sampleJob_def)
  have h: "jobs (handleAddJob 7 j (Resolves (Some ''row-9'') None) initialApp)
     = j\<lparr>job_id := ''row-9''\<rparr> # jobs initialApp" for j
    by (simp add: handleAddJob_succeeded initialApp_def)
  show ?thesis
    using generation_failure_placeholder
      [where e = "''quota''" and isOffersMode = False and newJob = sampleForm
         and dateString = "''2026-02-01''" and now = 7
         and ins = "Resolves (Some ''row-9'') None" and st = initialApp
         and sel = sampleJob and res = "Resolves None None"
         and rend = "render initialApp"]
      generation_failure_placeholder
      [where e = "''quota''" and isOffersMode = False and newJob = sampleForm
         and dateString = "''2026-02-01''" and now = 7
         and ins = "Resolves (Some ''row-9'') None"
         and st = "initialApp\<lparr>jobs := [sampleJob]\<rparr>"
         and sel = sampleJob and res = "Resolves None None"
         and rend = "render (initialApp\<lparr>jobs := [sampleJob]\<rparr>)"]
      n o
    by (simp add: h)
qed

text \<open>
  C7 as stated fails for an application whose status is Offer: the partitioner lists it
  under applications, and a regeneration whose generation call throws leaves its cover
  letter as it was, in the selected record and in the collection; the placeholder is
  written to the interview guide.
\<close>

theorem regeneration_leaves_cover_letter_counterexample:
  "origin offerStatusApplication = Some Application
   \<and> displayedJobs applications [offerStatusApplication] = [offerStatusApplication]
   \<and> map_option coverLetter
        (snd (handleRegenerate (render (initialApp\<lparr>jobs := [offerStatusApplication]\<rparr>))
               (GenThrows ''quota'') 7 (Resolves None None)
               (initialApp\<lparr>jobs := [offerStatusApplication]\<rparr>, Some offerStatusApplication)))
       = Some ''Dear Hiring Manager,''
   \<and> map coverLetter
        (jobs (fst (handleRegenerate (render (initialApp\<lparr>jobs := [offerStatusApplication]\<rparr>))
               (GenThrows ''quota'') 7 (Resolves None None)
               (initialApp\<lparr>jobs := [offerStatusApplication]\<rparr>, Some offerStatusApplication))))
       = [''Dear Hiring Manager,'']"
  by (simp add: offerStatusApplication_def sampleJob_def displayedJobs_def originOrFallback_def
      handleRegenerate_def isJobOfferType_def generateInterviewGuide_def Let_def
      handleUpdateJob_def update_settle_frame update_apply_jobs)

section \<open>Resume autosave\<close>

lemma setResume_fields:
  "session (setResume t r st) = session st
   \<and> resume (setResume t r st) = r
   \<and> saved (setResume t r st) = saved (fireTimer t st)
   \<and> timer (setResume t r st) =
       (if session st \<and> fullName r \<noteq> [] then Some (t + 2000, r) else None)"
  by (auto simp: setResume_def autosaveEffect_def fireTimer_def Let_def split: option.splits)

lemma fireTimer_not_due:
  "timer st = None \<or> (\<exists>due r. timer st = Some (due, r) \<and> now < due) \<Longrightarrow> fireTimer now st = st"
  by (auto simp: fireTimer_def)

text \<open>
  Through a burst that follows a mutation at time \<open>t\<close>, no timer runs: the calls
  issued stay as they were, and the pending timer is the one of the last mutation.
\<close>

lemma burst_state:
  assumes "withinQuietInterval t ms"
      and "timer st = (if session st \<and> fullName (resume st) \<noteq> []
                       then Some (t + 2000, resume st) else None)"
  shows "saved (mutations ms st) = saved st
       \<and> session (mutations ms st) = session st
       \<and> resume (mutations ms st) = snd (lastMutation (t, resume st) ms)
       \<and> timer (mutations ms st) =
           (if session st \<and> fullName (snd (lastMutation (t, resume st) ms)) \<noteq> []
            then Some (fst (lastMutation (t, resume st) ms) + 2000,
                       snd (lastMutation (t, resume st) ms))
            else None)"
  using assms
proof (induction ms arbitrary: t st)
  case Nil
  then show ?case by simp
next
  case (Cons m ms)
  obtain t' r' where m: "m = (t', r')" by (cases m)
  from Cons.prems m have q: "t \<le> t'" "t' < t + 2000" "withinQuietInterval t' ms" by simp_all
  have nf: "fireTimer t' st = st"
    using Cons.prems(2) q(2) by (intro fireTimer_not_due) (auto split: if_splits)
  let ?st = "setResume t' r' st"
  have f: "session ?st = session st" "resume ?st = r'" "saved ?st = saved st"
    "timer ?st = (if session ?st \<and> fullName (resume ?st) \<noteq> []
                  then Some (t' + 2000, resume ?st) else None)"
    by (simp_all add: setResume_fields nf)
  from Cons.IH [OF q(3) f(4)] show ?case
    by (simp add: m f)
qed

text \<open>
  C9, as amended. Take a burst of mutations, the first at time \<open>t\<close> and each later one
  less than 2000 ms after the one before it, and let \<open>(tn, rn)\<close> be its last mutation.
  During the burst no call is issued beyond those issued when it began, and the
  pending timer is the one of the last mutation, due at \<open>tn + 2000\<close>: every earlier one
  was cancelled. Once that time has passed, exactly one call has been issued, carrying
  \<open>rn\<close>, provided a session exists and \<open>fullName\<close> of \<open>rn\<close> is not empty; otherwise no
  call is issued.
\<close>

theorem burst_issues_one_persist:
  assumes "withinQuietInterval t ms"
      and "lastMutation (t, r) ms = (tn, rn)"
      and "tn + 2000 \<le> T"
  shows "saved (mutations ((t, r) # ms) st) = saved (fireTimer t st)
       \<and> timer (mutations ((t, r) # ms) st)
           = (if session st \<and> fullName rn \<noteq> [] then Some (tn + 2000, rn) else None)
       \<and> saved (fireTimer T (mutations ((t, r) # ms) st))
           = saved (fireTimer t st) @ (if session st \<and> fullName rn \<noteq> [] then [rn] else [])"
proof -
  let ?st = "setResume t r st"
  have f: "session ?st = session st" "resume ?st = r" "saved ?st = saved (fireTimer t st)"
    "timer ?st = (if session ?st \<and> fullName (resume ?st) \<noteq> []
                  then Some (t + 2000, resume ?st) else None)"
    by (simp_all add: setResume_fields)
  from burst_state [OF assms(1) f(4)] assms(2)
  have b: "saved (mutations ms ?st) = saved (fireTimer t st)"
    "timer (mutations ms ?st)
       = (if session st \<and> fullName rn \<noteq> [] then Some (tn + 2000, rn) else None)"
    by (simp_all add: f)
  with assms(3) show ?thesis
    by (simp add: fireTimer_def)
qed

theorem burst_issues_one_persist_witness:
  "saved (fireTimer 2400 (mutations
      [(0, blankResume\<lparr>fullName := ''A''\<rparr>), (150, blankResume\<lparr>fullName := ''Al''\<rparr>),
       (400, blankResume\<lparr>fullName := ''Alex''\<rparr>)] initialAutosave))
     = [blankResume\<lparr>fullName := ''Alex''\<rparr>]"
proof -
  have q: "withinQuietInterval 0 [(150, blankResume\<lparr>fullName := ''Al''\<rparr>),
       (400, blankResume\<lparr>fullName := ''Alex''\<rparr>)]"
    by simp
  have l: "lastMutation (0, blankResume\<lparr>fullName := ''A''\<rparr>)
       [(150, blankResume\<lparr>fullName := ''Al''\<rparr>), (400, blankResume\<lparr>fullName := ''Alex''\<rparr>)]
     = (400, blankResume\<lparr>fullName := ''Alex''\<rparr>)"
    by simp
  have t: "(400::nat) + 2000 \<le> 2400" by simp
  show ?thesis
    using burst_issues_one_persist [OF q l t, of initialAutosave]
    by (simp add: initialAutosave_def fireTimer_def)
qed

text \<open>
  C9 as stated fails for a burst that leaves \<open>fullName\<close> empty: three mutations of the
  email within the quiet interval, with a session present, issue no call at all.
\<close>

theorem burst_without_name_counterexample:
  "saved (fireTimer 2400 (mutations
      [(0, blankResume\<lparr>resume_email := ''a''\<rparr>), (150, blankResume\<lparr>resume_email := ''a@b''\<rparr>),
       (400, blankResume\<lparr>resume_email := ''a@b.c''\<rparr>)] initialAutosave))
     = []"
  by (simp add: initialAutosave_def blankResume_def setResume_def autosaveEffect_def
      fireTimer_def Let_def)

text \<open>
  C10. After a mutation that leaves \<open>fullName\<close> empty, whatever the other fields hold,
  no timer is pending, and however much time passes the calls issued are those issued
  before the mutation: the document is not persisted.
\<close>

theorem autosave_guard_on_fullName:
  assumes "fullName r = []"
  shows "timer (setResume now r st) = None
       \<and> saved (setResume now r st) = saved (fireTimer now st)
       \<and> saved (fireTimer T (setResume now r st)) = saved (fireTimer now st)"
  using assms by (simp add: setResume_fields fireTimer_def)

theorem autosave_guard_on_fullName_witness:
  "saved (fireTimer 9000 (setResume 100
      (blankResume\<lparr>resume_email := ''a@b.c'', phone := ''555'', summary := ''Engineer'',
                    skills := ''HOL''\<rparr>)
      initialAutosave)) = []"
proof -
  have e: "fullName (blankResume\<lparr>resume_email := ''a@b.c'', phone := ''555'',
             summary := ''Engineer'', skills := ''HOL''\<rparr>) = []"
    by (simp add: blankResume_def)
  show ?thesis
    using autosave_guard_on_fullName
            [OF e, where T = 9000 and now = 100 and st = initialAutosave]
    by (simp add: initialAutosave_def fireTimer_def)
qed

text \<open>Every call the autosave ever issues carries a document with a name.\<close>

lemma saved_always_named:
  assumes "\<forall>x \<in> set (saved st). fullName x \<noteq> []"
      and "\<forall>due x. timer st = Some (due, x) \<longrightarrow> fullName x \<noteq> []"
  shows "\<forall>x \<in> set (saved (fireTimer T (mutations ms st))). fullName x \<noteq> []"
  using assms
proof (induction ms arbitrary: st)
  case Nil
  then show ?case by (auto simp: fireTimer_def split: option.splits if_splits)
next
  case (Cons m ms)
  obtain t r where m: "m = (t, r)" by (cases m)
  have a: "\<forall>x \<in> set (saved (setResume t r st)). fullName x \<noteq> []"
    using Cons.prems by (auto simp: setResume_fields fireTimer_def split: option.splits if_splits)
  have b: "\<forall>due x. timer (setResume t r st) = Some (due, x) \<longrightarrow> fullName x \<noteq> []"
    by (auto simp: setResume_fields split: if_splits)
  from Cons.IH [OF a b] show ?case by (simp add: m)
qed

end
